theory Spec2Isabelle
  imports Main
begin

section \<open>Identifiers and wire types (types/canton.ts)\<close>

type_synonym PartyId = string
type_synonym ContractId = string
type_synonym TemplateId = string
type_synonym PackageId = string
type_synonym UpdateId = string

text \<open>\<^verbatim>\<open>LedgerOffset = number\<close>; offsets on the wire are integers.\<close>

type_synonym LedgerOffset = int

text \<open>Untyped JSON values (\<^verbatim>\<open>unknown\<close>, \<^verbatim>\<open>Record<string, unknown>\<close>).\<close>

datatype json =
    JNull
  | JBool bool
  | JNum int
  | JStr string
  | JArr "json list"
  | JObj "(string \<times> json) list"

record Party =
  partyId :: PartyId
  displayName :: "string option"
  isLocal :: bool
  identityProviderId :: "string option"

record Contract =
  contractId :: ContractId
  templateId :: TemplateId
  payload :: json
  stakeholders :: "PartyId list"
  observers :: "PartyId list"
  signatories :: "PartyId list"
  createdAt :: string
  offset :: LedgerOffset
  contractKey :: "json option"
  createdEventBlob :: "string option"

text \<open>\<^verbatim>\<open>BaseEvent\<close> and \<^verbatim>\<open>CreatedEvent extends BaseEvent\<close>; the fields carry the
  prefix \<open>ev_\<close> where \<^verbatim>\<open>Contract\<close> has a field of the same name.\<close>

record BaseEvent =
  eventId :: string
  ev_contractId :: ContractId
  ev_templateId :: TemplateId
  ev_offset :: LedgerOffset
  nodeId :: int

record CreatedEvent = BaseEvent +
  createArguments :: json
  ev_contractKey :: "json option"
  ev_signatories :: "PartyId list"
  ev_observers :: "PartyId list"
  ev_createdEventBlob :: "string option"

record Transaction =
  updateId :: UpdateId
  tx_offset :: LedgerOffset
  effectiveAt :: string
  commandId :: "string option"
  workflowId :: "string option"
  events :: "json list"

record LedgerEnd =
  le_offset :: "LedgerOffset option"

record ConnectionConfig =
  cfg_endpoint :: string
  authToken :: "string option"

record ConnectionStatus =
  connected :: bool
  st_endpoint :: string
  ledgerEnd :: "LedgerOffset option"
  participantId :: "string option"
  st_error :: "string option"

subsection \<open>Transaction filters\<close>

text \<open>\<^verbatim>\<open>IdentifierFilter\<close> is a union of three one-key objects; the optional flag
  \<^verbatim>\<open>includeCreatedEventBlob\<close> is an option.\<close>

datatype IdentifierFilter =
    WildcardFilter "bool option"
  | TemplateFilter TemplateId "bool option"
  | InterfaceFilter string "bool option" "bool option"

record PartyFilter =
  pf_cumulative :: "IdentifierFilter list option"

record AnyPartyFilter =
  cumulative :: "IdentifierFilter list"

record TransactionFilter =
  filtersByParty :: "PartyId \<rightharpoonup> PartyFilter"
  filtersForAnyParty :: "AnyPartyFilter option"

section \<open>Thrown values and HTTP (services/cantonClient.ts)\<close>

text \<open>What a \<^verbatim>\<open>throw\<close> or a rejected promise can carry: a \<^verbatim>\<open>CantonAPIError\<close>
  (status, message as passed to the constructor, path), any other \<^verbatim>\<open>Error\<close> with its
  message (the \<^verbatim>\<open>TypeError\<close> of a failed \<^verbatim>\<open>fetch\<close>, the \<^verbatim>\<open>SyntaxError\<close> of
  \<^verbatim>\<open>JSON.parse\<close>), or a value that is not an \<^verbatim>\<open>Error\<close>.\<close>

datatype thrown =
    CantonAPIError nat string string
  | JsError string
  | NonError

text \<open>Template literals print a number in decimal.\<close>

fun show_nat :: "nat \<Rightarrow> string" where
  "show_nat n =
     (if n < 10 then [''0123456789'' ! n]
      else show_nat (n div 10) @ [''0123456789'' ! (n mod 10)])"

declare show_nat.simps [simp del]

fun instanceof_Error :: "thrown \<Rightarrow> bool" where
  "instanceof_Error (CantonAPIError s m p) = True"
| "instanceof_Error (JsError m) = True"
| "instanceof_Error NonError = False"



text \<open>\<^verbatim>\<open>error.message\<close>; the constructor of \<^verbatim>\<open>CantonAPIError\<close> passes
  \<^verbatim>\<open>`Canton API Error (${status}): ${message} [${path}]`\<close> to \<^verbatim>\<open>super\<close>.\<close>

fun err_message :: "thrown \<Rightarrow> string" where
  "err_message (CantonAPIError s m p) =
     ''Canton API Error ('' @ show_nat s @ ''): '' @ m @ '' ['' @ p @ '']''"
| "err_message (JsError m) = m"
| "err_message NonError = []"

text \<open>The response of \<^verbatim>\<open>fetch\<close>. \<^verbatim>\<open>response.ok\<close> is, by the Fetch standard, a
  status in the range 200 to 299.\<close>

record Response =
  status :: nat
  statusText :: string
  body :: string

definition ok :: "Response \<Rightarrow> bool" where
  "ok r = (200 \<le> status r \<and> status r \<le> 299)"

text \<open>The outcome of one \<^verbatim>\<open>await fetch(...)\<close>: the promise resolves with a response
  or rejects. \<^verbatim>\<open>fetch\<close> rejects with an \<^verbatim>\<open>Error\<close> of the platform or, at worst, with
  some other value; it never rejects with a \<^verbatim>\<open>CantonAPIError\<close>, which only
  \<^verbatim>\<open>request\<close> constructs.\<close>

datatype rejection =
    NetworkError string
  | OtherRejection

fun thrown_of :: "rejection \<Rightarrow> thrown" where
  "thrown_of (NetworkError m) = JsError m"
| "thrown_of OtherRejection = NonError"

type_synonym outcome = "rejection + Response"

text \<open>\<^verbatim>\<open>JSON.parse\<close> is not part of the repository. For a call \<^verbatim>\<open>request<T>\<close>, a codec
  gives the parsed value of a body at the type that stands for \<^verbatim>\<open>T\<close> (\<open>None\<close>: a
  \<^verbatim>\<open>SyntaxError\<close> with that message is thrown).\<close>

record 'a codec =
  parse :: "string \<Rightarrow> 'a option"
  syntaxError :: string

text \<open>A body declared as \<^verbatim>\<open>T\<close> parses to whatever JSON value the server sent, and the
  code reads it unchecked. The shape of the parsed value is kept where those reads tell
  shapes apart: \<^verbatim>\<open>null\<close>, an object, an array, a string, or a number or boolean. The
  fields of an object (\<open>'o\<close>) and the elements of an array (\<open>'e\<close>) are taken at their
  declared types; an absent field is \<open>None\<close>, and so is a falsy one where the code only
  tests the field for truthiness.\<close>

datatype ('o, 'e) parsed =
    PNull
  | PObject 'o
  | PArray "'e list"
  | PString string
  | PScalar

text \<open>Reading a property of \<^verbatim>\<open>null\<close> throws a \<^verbatim>\<open>TypeError\<close>, and so does iterating
  anything but an array or a string. The messages are worded as V8 words them; no
  statement below depends on the wording.\<close>

definition nullRead :: "string \<Rightarrow> thrown" where
  "nullRead name =
     JsError (''Cannot read properties of null (reading '' @ [CHR 0x27] @ name @ [CHR 0x27] @ '')'')"

definition notIterable :: thrown where
  "notIterable = JsError ''response is not iterable''"

text \<open>\<^verbatim>\<open>value.name\<close> for the field names the code reads: an array, a string, a number
  and a boolean have no property of these names, so the read gives \<^verbatim>\<open>undefined\<close>.\<close>

fun readField :: "string \<Rightarrow> ('o \<Rightarrow> 'b option) \<Rightarrow> ('o, 'e) parsed \<Rightarrow> thrown + 'b option" where
  "readField name sel PNull = Inl (nullRead name)"
| "readField name sel (PObject ob) = Inr (sel ob)"
| "readField name sel (PArray xs) = Inr None"
| "readField name sel (PString str) = Inr None"
| "readField name sel PScalar = Inr None"

text \<open>For the body of a failed response, \<open>ef body\<close> is \<open>None\<close> when
  \<^verbatim>\<open>JSON.parse(errorBody)\<close> or the field access throws, \<open>Some None\<close> when neither
  \<^verbatim>\<open>errorJson.message\<close> nor \<^verbatim>\<open>errorJson.error\<close> is truthy, and \<open>Some (Some m)\<close> for the
  first truthy one of the two.\<close>

type_synonym errorFields = "string \<Rightarrow> string option option"

record CantonClient =
  endpoint :: string
  headers :: "(string \<times> string) list"

text \<open>The constructor: \<^verbatim>\<open>config.endpoint.replace(/\/$/, '')\<close> removes one trailing
  slash; the \<^verbatim>\<open>Authorization\<close> header is added for a truthy token.\<close>

definition createCantonClient :: "ConnectionConfig \<Rightarrow> CantonClient" where
  "createCantonClient config =
     \<lparr> endpoint =
         (if cfg_endpoint config \<noteq> [] \<and> last (cfg_endpoint config) = CHR ''/''
          then butlast (cfg_endpoint config) else cfg_endpoint config),
       headers =
         (''Content-Type'', ''application/json'') #
         (case authToken config of
            None \<Rightarrow> []
          | Some t \<Rightarrow> if t = [] then [] else [(''Authorization'', ''Bearer '' @ t)]) \<rparr>"

text \<open>\<^verbatim>\<open>request<T>(path, options)\<close>, given the outcome of its \<^verbatim>\<open>fetch\<close>. The argument
  \<open>emptyObject\<close> is the value \<^verbatim>\<open>{} as T\<close>, which each caller gives at its own type.\<close>

definition request :: "'a codec \<Rightarrow> 'a \<Rightarrow> errorFields \<Rightarrow> string \<Rightarrow> outcome \<Rightarrow> thrown + 'a" where
  "request cd emptyObject ef path out =
     (case out of
        Inl e \<Rightarrow> Inl (thrown_of e)
      | Inr response \<Rightarrow>
          if \<not> ok response then
            (let errorBody = body response;
                 errorMessage =
                   (case ef errorBody of
                      Some (Some m) \<Rightarrow> m
                    | Some None \<Rightarrow> errorBody
                    | None \<Rightarrow> if errorBody \<noteq> [] then errorBody else statusText response)
             in Inl (CantonAPIError (status response) errorMessage path))
          else
            (let text = body response
             in if text = [] then Inr emptyObject
                else (case parse cd text of
                        None \<Rightarrow> Inl (JsError (syntaxError cd))
                      | Some v \<Rightarrow> Inr v)))"

definition get :: "'a codec \<Rightarrow> 'a \<Rightarrow> errorFields \<Rightarrow> string \<Rightarrow> outcome \<Rightarrow> thrown + 'a" where
  "get cd emptyObject ef path out = request cd emptyObject ef path out"

definition post :: "'a codec \<Rightarrow> 'a \<Rightarrow> errorFields \<Rightarrow> string \<Rightarrow> outcome \<Rightarrow> thrown + 'a" where
  "post cd emptyObject ef path out = request cd emptyObject ef path out"

text \<open>\<^verbatim>\<open>try { ... } catch (error) { ... }\<close>.\<close>

definition try_catch :: "(thrown + 'a) \<Rightarrow> (thrown \<Rightarrow> thrown + 'a) \<Rightarrow> thrown + 'a" where
  "try_catch block handler = (case block of Inl e \<Rightarrow> handler e | Inr v \<Rightarrow> Inr v)"

subsection \<open>Connection and health\<close>

definition ping ::
  "(LedgerEnd, unit) parsed codec \<Rightarrow> errorFields \<Rightarrow> outcome \<Rightarrow> thrown + (LedgerEnd, unit) parsed" where
  "ping cd ef out = get cd (PObject \<lparr> le_offset = None \<rparr>) ef ''/v2/state/ledger-end'' out"

text \<open>The read \<^verbatim>\<open>ledgerEnd.offset\<close> is inside the \<^verbatim>\<open>try\<close> block.\<close>

definition getConnectionStatus ::
  "(LedgerEnd, unit) parsed codec \<Rightarrow> errorFields \<Rightarrow> CantonClient \<Rightarrow> outcome
     \<Rightarrow> thrown + ConnectionStatus" where
  "getConnectionStatus cd ef c out =
     try_catch
       (case ping cd ef out of
          Inl e \<Rightarrow> Inl e
        | Inr ledgerEnd' \<Rightarrow>
            (case readField ''offset'' le_offset ledgerEnd' of
               Inl e \<Rightarrow> Inl e
             | Inr offset' \<Rightarrow>
                 Inr \<lparr> connected = True, st_endpoint = endpoint c, ledgerEnd = offset',
                       participantId = None, st_error = None \<rparr>))
       (\<lambda>error.
            Inr \<lparr> connected = False, st_endpoint = endpoint c, ledgerEnd = None,
                  participantId = None,
                  st_error = Some (if instanceof_Error error then err_message error
                                   else ''Unknown error'') \<rparr>)"

subsection \<open>Utility methods\<close>

definition buildTransactionFilter :: "PartyId \<Rightarrow> TemplateId list option \<Rightarrow> TransactionFilter" where
  "buildTransactionFilter partyId' templateIds =
     (if templateIds = None \<or> length (the templateIds) = 0 then
        \<lparr> filtersByParty = Map.empty,
          filtersForAnyParty = Some \<lparr> cumulative = [WildcardFilter (Some True)] \<rparr> \<rparr>
      else
        \<lparr> filtersByParty =
            [partyId' \<mapsto>
               \<lparr> pf_cumulative =
                   Some (map (\<lambda>templateId'. TemplateFilter templateId' (Some True))
                             (the templateIds)) \<rparr>],
          filtersForAnyParty = None \<rparr>)"

text \<open>\<^verbatim>\<open>new Date().toISOString()\<close> is the argument \<open>now\<close>.\<close>

definition eventToContract :: "CreatedEvent \<Rightarrow> LedgerOffset \<Rightarrow> string \<Rightarrow> Contract" where
  "eventToContract event offset' now =
     \<lparr> contractId = ev_contractId event,
       templateId = ev_templateId event,
       payload = createArguments event,
       stakeholders = ev_signatories event @ ev_observers event,
       observers = ev_observers event,
       signatories = ev_signatories event,
       createdAt = now,
       offset = offset',
       contractKey = ev_contractKey event,
       createdEventBlob = ev_createdEventBlob event \<rparr>"

subsection \<open>Point lookups\<close>





subsection \<open>Parties, active contracts and transactions\<close>

record PartiesResponse =
  partyDetails :: "Party list option"

definition getParties ::
  "(PartiesResponse, unit) parsed codec \<Rightarrow> errorFields \<Rightarrow> outcome \<Rightarrow> thrown + Party list" where
  "getParties cd ef out =
     (case get cd (PObject \<lparr> partyDetails = None \<rparr>) ef ''/v2/parties'' out of
        Inl e \<Rightarrow> Inl e
      | Inr response \<Rightarrow>
          (case readField ''partyDetails'' partyDetails response of
             Inl e \<Rightarrow> Inl e
           | Inr ps \<Rightarrow> Inr (case ps of Some ps' \<Rightarrow> ps' | None \<Rightarrow> [])))"

record ContractEntry =
  createdEvent :: "CreatedEvent option"

record ActiveContractsStreamItem =
  item_offset :: LedgerOffset
  item_workflowId :: "string option"
  contractEntry :: "ContractEntry option"

record TransactionsStreamItem =
  transaction :: "Transaction option"
  transactionTree :: "json option"

record ActiveContractsOptions =
  opt_templateIds :: "TemplateId list option"
  opt_offset :: "LedgerOffset option"
  opt_verbose :: "bool option"

record ActiveContractsRequest =
  acr_filter :: TransactionFilter
  acr_verbose :: bool
  activeAtOffset :: "LedgerOffset option"

definition activeContractsRequest :: "PartyId \<Rightarrow> ActiveContractsOptions \<Rightarrow> ActiveContractsRequest" where
  "activeContractsRequest partyId' options =
     \<lparr> acr_filter = buildTransactionFilter partyId' (opt_templateIds options),
       acr_verbose = (case opt_verbose options of Some v \<Rightarrow> v | None \<Rightarrow> False),
       activeAtOffset = opt_offset options \<rparr>"

text \<open>The loop \<^verbatim>\<open>for (const item of response)\<close> of \<^verbatim>\<open>getActiveContracts\<close>, with the
  array \<^verbatim>\<open>contracts\<close> it pushes to.\<close>

fun pushContracts :: "string \<Rightarrow> ActiveContractsStreamItem list \<Rightarrow> Contract list \<Rightarrow> Contract list" where
  "pushContracts now [] contracts' = contracts'"
| "pushContracts now (item # rest) contracts' =
     (case contractEntry item of
        None \<Rightarrow> pushContracts now rest contracts'
      | Some entry \<Rightarrow>
          (case createdEvent entry of
             None \<Rightarrow> pushContracts now rest contracts'
           | Some event \<Rightarrow>
               pushContracts now rest (contracts' @ [eventToContract event (item_offset item) now])))"

text \<open>\<^verbatim>\<open>for (const item of response)\<close> throws unless the response is iterable. An array
  gives its elements. A string gives its characters, each a string without a
  \<^verbatim>\<open>contractEntry\<close>, so nothing is pushed. The \<^verbatim>\<open>{}\<close> of an empty body, any other
  object, \<^verbatim>\<open>null\<close>, a number and a boolean are not iterable.\<close>

definition getActiveContracts ::
  "(unit, ActiveContractsStreamItem) parsed codec \<Rightarrow> errorFields \<Rightarrow> string \<Rightarrow> PartyId
     \<Rightarrow> ActiveContractsOptions \<Rightarrow> outcome \<Rightarrow> thrown + Contract list" where
  "getActiveContracts cd ef now partyId' options out =
     (case post cd (PObject ()) ef ''/v2/state/active-contracts'' out of
        Inl e \<Rightarrow> Inl e
      | Inr response \<Rightarrow>
          (case response of
             PArray items \<Rightarrow> Inr (pushContracts now items [])
           | PString str \<Rightarrow> Inr []
           | PNull \<Rightarrow> Inl notIterable
           | PObject ob \<Rightarrow> Inl notIterable
           | PScalar \<Rightarrow> Inl notIterable))"

text \<open>\<^verbatim>\<open>xs.slice(0, n)\<close> for an integer \<open>n\<close>: a negative end counts from the end.\<close>

definition slice0 :: "'a list \<Rightarrow> int \<Rightarrow> 'a list" where
  "slice0 xs n = (if 0 \<le> n then take (nat n) xs else take (length xs - nat (- n)) xs)"

fun pushTransactions :: "TransactionsStreamItem list \<Rightarrow> Transaction list \<Rightarrow> Transaction list" where
  "pushTransactions [] transactions' = transactions'"
| "pushTransactions (item # rest) transactions' =
     (case transaction item of
        None \<Rightarrow> pushTransactions rest transactions'
      | Some t \<Rightarrow> pushTransactions rest (transactions' @ [t]))"

text \<open>\<^verbatim>\<open>options.limit ? transactions.slice(0, options.limit) : transactions\<close>: an absent
  limit and the limit 0 are falsy.\<close>

definition getTransactions ::
  "(unit, TransactionsStreamItem) parsed codec \<Rightarrow> errorFields \<Rightarrow> PartyId \<Rightarrow> int option
     \<Rightarrow> outcome \<Rightarrow> thrown + Transaction list" where
  "getTransactions cd ef partyId' limit out =
     (case post cd (PObject ()) ef ''/v2/updates/transactions'' out of
        Inl e \<Rightarrow> Inl e
      | Inr response \<Rightarrow>
          (case response of
             PArray items \<Rightarrow>
               (let transactions' = pushTransactions items []
                in Inr (case limit of
                          None \<Rightarrow> transactions'
                        | Some l \<Rightarrow> if l = 0 then transactions' else slice0 transactions' l))
           | PString str \<Rightarrow> Inr []
           | PNull \<Rightarrow> Inl notIterable
           | PObject ob \<Rightarrow> Inl notIterable
           | PScalar \<Rightarrow> Inl notIterable))"

section \<open>The store (services/store.ts)\<close>

record ContractQuery =
  cq_templateId :: "TemplateId option"
  cq_partyId :: "PartyId option"
  cq_status :: "string option"
  fromOffset :: "LedgerOffset option"
  toOffset :: "LedgerOffset option"
  searchText :: "string option"
  cq_limit :: "int option"

record SavedFilter =
  sf_id :: string
  sf_name :: string
  sf_query :: ContractQuery
  sf_createdAt :: string

record Template =
  t_templateId :: TemplateId
  packageId :: PackageId
  moduleName :: string
  entityName :: string
  choices :: "json list"

datatype Page = Dashboard | ContractsPage | TransactionsPage | TemplatesPage | Health

record ScanConfig =
  url :: string
  memberId :: string

text \<open>\<^verbatim>\<open>StoreState extends ConnectionState, PartyLensState, DataState, UIState, ScanState\<close>:
  one flat object. The field \<^verbatim>\<open>status\<close> is \<open>conn_status\<close> here (\<open>status\<close> is the
  HTTP status of a response), and a \<^verbatim>\<open>ScanClient\<close> is its base URL.\<close>

record StoreState =
  config :: "ConnectionConfig option"
  conn_status :: ConnectionStatus
  client :: "CantonClient option"
  activeParty :: "Party option"
  availableParties :: "Party list"
  viewAsObserver :: bool
  contracts :: "string \<rightharpoonup> Contract"
  transactions :: "Transaction list"
  templates :: "string \<rightharpoonup> Template"
  lastOffset :: LedgerOffset
  isLoading :: bool
  error :: "string option"
  currentPage :: Page
  contractFilters :: ContractQuery
  savedFilters :: "SavedFilter list"
  searchQuery :: string
  sidebarOpen :: bool
  darkMode :: bool
  scanConfig :: ScanConfig
  scanClient :: "string option"
  trafficStatus :: "json option"
  miningRounds :: "json option"
  isScanLoading :: bool
  scanError :: "string option"

text \<open>What the calls of the store need from outside: the parsers of the four response
  types, the reading of error bodies, and the clock.\<close>

record env =
  ledgerEndCodec :: "(LedgerEnd, unit) parsed codec"
  partiesCodec :: "(PartiesResponse, unit) parsed codec"
  acsCodec :: "(unit, ActiveContractsStreamItem) parsed codec"
  txCodec :: "(unit, TransactionsStreamItem) parsed codec"
  errFields :: errorFields
  nowISO :: string

subsection \<open>connect\<close>

text \<open>The \<^verbatim>\<open>catch\<close> block of \<^verbatim>\<open>connect\<close>.\<close>

definition connect_catch :: "StoreState \<Rightarrow> ConnectionConfig \<Rightarrow> thrown \<Rightarrow> StoreState \<times> bool" where
  "connect_catch s config' error' =
     (let errorMessage = (if instanceof_Error error' then err_message error'
                          else ''Connection failed'')
      in (s\<lparr> conn_status :=
                \<lparr> connected = False, st_endpoint = cfg_endpoint config', ledgerEnd = None,
                  participantId = None, st_error = Some errorMessage \<rparr>,
              error := Some errorMessage,
              isLoading := False \<rparr>,
          False))"

text \<open>\<^verbatim>\<open>connect(config)\<close>, given the outcomes of the two requests it may make (the
  second is made only after a connected status). The result is the store and the
  returned boolean.\<close>

definition connect ::
  "env \<Rightarrow> StoreState \<Rightarrow> ConnectionConfig \<Rightarrow> outcome \<Rightarrow> outcome \<Rightarrow> StoreState \<times> bool" where
  "connect E s config' pingOut partiesOut =
     (let client' = createCantonClient config';
          s1 = s\<lparr> isLoading := True, error := None \<rparr>
      in case getConnectionStatus (ledgerEndCodec E) (errFields E) client' pingOut of
           Inl e \<Rightarrow> connect_catch s1 config' e
         | Inr status' \<Rightarrow>
             if \<not> connected status' then
               (s1\<lparr> conn_status := status',
                     error := Some (case st_error status' of
                                      None \<Rightarrow> ''Failed to connect''
                                    | Some m \<Rightarrow> if m = [] then ''Failed to connect'' else m),
                     isLoading := False \<rparr>,
                False)
             else
               (case getParties (partiesCodec E) (errFields E) partiesOut of
                  Inl e \<Rightarrow> connect_catch s1 config' e
                | Inr parties \<Rightarrow>
                    (s1\<lparr> config := Some config',
                          client := Some client',
                          conn_status := status',
                          availableParties := parties,
                          isLoading := False,
                          error := None \<rparr>,
                     True)))"

subsection \<open>loadContracts and loadTransactions\<close>

text \<open>An \<^verbatim>\<open>async\<close> action runs up to its \<^verbatim>\<open>await\<close>, and its continuation runs
  when the awaited promise settles; other actions may run in between. Each load is
  therefore two functions on the store: \<open>_begin\<close> (\<open>None\<close> when the action returns at
  its guard, without a request) and \<open>_resume\<close>.\<close>

text \<open>The options \<^verbatim>\<open>loadContracts\<close> passes to \<^verbatim>\<open>getActiveContracts\<close>.\<close>

definition contractsOptions :: "ContractQuery option \<Rightarrow> ActiveContractsOptions" where
  "contractsOptions query =
     \<lparr> opt_templateIds =
         (case query of
            None \<Rightarrow> None
          | Some q \<Rightarrow>
              (case cq_templateId q of
                 None \<Rightarrow> None
               | Some t \<Rightarrow> if t = [] then None else Some [t])),
       opt_offset = (case query of None \<Rightarrow> None | Some q \<Rightarrow> fromOffset q),
       opt_verbose = Some True \<rparr>"

definition loadContracts_begin :: "StoreState \<Rightarrow> ContractQuery option \<Rightarrow> (StoreState \<times> PartyId \<times> ActiveContractsOptions) option" where
  "loadContracts_begin s query =
     (case (client s, activeParty s) of
        (Some c, Some p) \<Rightarrow>
          Some (s\<lparr> isLoading := True, error := None \<rparr>, partyId p, contractsOptions query)
      | _ \<Rightarrow> None)"

text \<open>The loop \<^verbatim>\<open>for (const contract of contracts) contractMap.set(...)\<close>.\<close>

fun setAll :: "Contract list \<Rightarrow> (string \<rightharpoonup> Contract) \<Rightarrow> (string \<rightharpoonup> Contract)" where
  "setAll [] contractMap = contractMap"
| "setAll (contract # rest) contractMap = setAll rest (contractMap(contractId contract \<mapsto> contract))"

definition loadContracts_resume :: "StoreState \<Rightarrow> thrown + Contract list \<Rightarrow> StoreState" where
  "loadContracts_resume s result =
     (case result of
        Inr contracts' \<Rightarrow> s\<lparr> contracts := setAll contracts' Map.empty, isLoading := False \<rparr>
      | Inl error' \<Rightarrow>
          s\<lparr> error := Some (if instanceof_Error error' then err_message error'
                             else ''Failed to load contracts''),
              isLoading := False \<rparr>)"

text \<open>The whole action when nothing else runs during its \<^verbatim>\<open>await\<close>.\<close>

definition loadContracts :: "env \<Rightarrow> StoreState \<Rightarrow> ContractQuery option \<Rightarrow> outcome \<Rightarrow> StoreState" where
  "loadContracts E s query out =
     (case loadContracts_begin s query of
        None \<Rightarrow> s
      | Some (s1, pid, options) \<Rightarrow>
          loadContracts_resume s1
            (getActiveContracts (acsCodec E) (errFields E) (nowISO E) pid options out))"

text \<open>\<^verbatim>\<open>loadTransactions\<close> reads \<^verbatim>\<open>lastOffset\<close> before its request and uses that value
  after it.\<close>

definition loadTransactions_begin :: "StoreState \<Rightarrow> (StoreState \<times> PartyId \<times> LedgerOffset) option" where
  "loadTransactions_begin s =
     (case (client s, activeParty s) of
        (Some c, Some p) \<Rightarrow> Some (s\<lparr> isLoading := True, error := None \<rparr>, partyId p, lastOffset s)
      | _ \<Rightarrow> None)"

text \<open>\<^verbatim>\<open>Math.max(...transactions.map((t) => t.offset))\<close> on a non-empty list.\<close>

definition maxOffset :: "Transaction list \<Rightarrow> LedgerOffset" where
  "maxOffset ts = fold max (map tx_offset (tl ts)) (tx_offset (hd ts))"

definition loadTransactions_resume ::
  "StoreState \<Rightarrow> LedgerOffset \<Rightarrow> thrown + Transaction list \<Rightarrow> StoreState" where
  "loadTransactions_resume s lastOffset' result =
     (case result of
        Inr transactions' \<Rightarrow>
          (let newLastOffset = (if length transactions' > 0 then maxOffset transactions'
                                else lastOffset')
           in s\<lparr> transactions := transactions', lastOffset := newLastOffset,
                  isLoading := False \<rparr>)
      | Inl error' \<Rightarrow>
          s\<lparr> error := Some (if instanceof_Error error' then err_message error'
                             else ''Failed to load transactions''),
              isLoading := False \<rparr>)"

definition loadTransactions :: "env \<Rightarrow> StoreState \<Rightarrow> int option \<Rightarrow> outcome \<Rightarrow> StoreState" where
  "loadTransactions E s limit out =
     (case loadTransactions_begin s of
        None \<Rightarrow> s
      | Some (s1, pid, lastOffset') \<Rightarrow>
          loadTransactions_resume s1 lastOffset'
            (getTransactions (txCodec E) (errFields E) pid
               (Some (case limit of None \<Rightarrow> 100 | Some l \<Rightarrow> l)) out))"

subsection \<open>setActiveParty, refreshData and in-flight requests\<close>

text \<open>A request that has been sent and whose promise has not settled, with what its
  continuation holds: the party and options of the call for \<^verbatim>\<open>loadContracts\<close>; the
  party, the value of \<^verbatim>\<open>lastOffset\<close> read at the start, and the limit for
  \<^verbatim>\<open>loadTransactions\<close>.\<close>

datatype pending =
    PendingContracts PartyId ActiveContractsOptions
  | PendingTransactions PartyId LedgerOffset int

text \<open>The store together with the requests in flight; each request has a number of
  its own, as each promise is an object of its own.\<close>

record sys =
  store :: StoreState
  inflight :: "(nat \<times> pending) list"
  nextId :: nat

definition issueContracts :: "sys \<Rightarrow> ContractQuery option \<Rightarrow> sys" where
  "issueContracts S query =
     (case loadContracts_begin (store S) query of
        None \<Rightarrow> S
      | Some (s1, pid, options) \<Rightarrow>
          S\<lparr> store := s1,
              inflight := inflight S @ [(nextId S, PendingContracts pid options)],
              nextId := Suc (nextId S) \<rparr>)"

definition issueTransactions :: "sys \<Rightarrow> int option \<Rightarrow> sys" where
  "issueTransactions S limit =
     (case loadTransactions_begin (store S) of
        None \<Rightarrow> S
      | Some (s1, pid, lastOffset') \<Rightarrow>
          S\<lparr> store := s1,
              inflight := inflight S @
                [(nextId S, PendingTransactions pid lastOffset'
                              (case limit of None \<Rightarrow> 100 | Some l \<Rightarrow> l))],
              nextId := Suc (nextId S) \<rparr>)"

text \<open>\<^verbatim>\<open>refreshData\<close> up to its \<^verbatim>\<open>await Promise.all([...])\<close>: both loads are started,
  in this order; nothing follows the \<^verbatim>\<open>await\<close>.\<close>

definition refreshData_begin :: "sys \<Rightarrow> sys" where
  "refreshData_begin S =
     (case activeParty (store S) of
        None \<Rightarrow> S
      | Some p \<Rightarrow> issueTransactions (issueContracts S None) None)"

definition setActiveParty :: "sys \<Rightarrow> Party \<Rightarrow> sys" where
  "setActiveParty S party =
     refreshData_begin (S\<lparr> store := (store S)\<lparr> activeParty := Some party \<rparr> \<rparr>)"

text \<open>The promise of request \<open>i\<close> settles with the outcome \<open>out\<close> of its \<^verbatim>\<open>fetch\<close>, and
  the continuation of the load runs on the store as it is then.\<close>

definition settle :: "env \<Rightarrow> sys \<Rightarrow> nat \<Rightarrow> outcome \<Rightarrow> sys" where
  "settle E S i out =
     (case map_of (inflight S) i of
        None \<Rightarrow> S
      | Some (PendingContracts pid options) \<Rightarrow>
          S\<lparr> store := loadContracts_resume (store S)
                         (getActiveContracts (acsCodec E) (errFields E) (nowISO E) pid options out),
              inflight := filter (\<lambda>r. fst r \<noteq> i) (inflight S) \<rparr>
      | Some (PendingTransactions pid lastOffset' limit) \<Rightarrow>
          S\<lparr> store := loadTransactions_resume (store S) lastOffset'
                         (getTransactions (txCodec E) (errFields E) pid (Some limit) out),
              inflight := filter (\<lambda>r. fst r \<noteq> i) (inflight S) \<rparr>)"

datatype event =
    SetActiveParty Party
  | Settle nat outcome

fun step :: "env \<Rightarrow> sys \<Rightarrow> event \<Rightarrow> sys" where
  "step E S (SetActiveParty party) = setActiveParty S party"
| "step E S (Settle i out) = settle E S i out"

fun run :: "env \<Rightarrow> sys \<Rightarrow> event list \<Rightarrow> sys" where
  "run E S [] = S"
| "run E S (e # es) = run E (step E S e) es"

text \<open>The contracts a single event commits: those of a successful response to a
  contracts request in flight, whichever party the request was made for.\<close>

definition contractsOf :: "env \<Rightarrow> sys \<Rightarrow> event \<Rightarrow> Contract list option" where
  "contractsOf E S e =
     (case e of
        SetActiveParty party \<Rightarrow> None
      | Settle i out \<Rightarrow>
          (case map_of (inflight S) i of
             Some (PendingContracts pid options) \<Rightarrow>
               (case getActiveContracts (acsCodec E) (errFields E) (nowISO E) pid options out of
                  Inr cs \<Rightarrow> Some cs
                | Inl err \<Rightarrow> None)
           | _ \<Rightarrow> None))"

definition transactionsOf :: "env \<Rightarrow> sys \<Rightarrow> event \<Rightarrow> Transaction list option" where
  "transactionsOf E S e =
     (case e of
        SetActiveParty party \<Rightarrow> None
      | Settle i out \<Rightarrow>
          (case map_of (inflight S) i of
             Some (PendingTransactions pid lastOffset' limit) \<Rightarrow>
               (case getTransactions (txCodec E) (errFields E) pid (Some limit) out of
                  Inr ts \<Rightarrow> Some ts
                | Inl err \<Rightarrow> None)
           | _ \<Rightarrow> None))"

text \<open>The most recently completed successful load of a run: the data of the last event
  that commits any.\<close>

fun lastCompleted :: "(sys \<Rightarrow> event \<Rightarrow> 'a option) \<Rightarrow> env \<Rightarrow> sys \<Rightarrow> event list \<Rightarrow> 'a option" where
  "lastCompleted f E S [] = None"
| "lastCompleted f E S (e # es) =
     (case lastCompleted f E (step E S e) es of
        Some d \<Rightarrow> Some d
      | None \<Rightarrow> f S e)"

section \<open>The network explorer (pages/ScanExplorer.tsx)\<close>

subsection \<open>Transfer extraction\<close>

record ScanEvent =
  template_id :: "string option"
  event_type :: "string option"
  choice :: "string option"

text \<open>\<^verbatim>\<open>events_by_id\<close> is an object; its entries are listed in the order in which
  \<^verbatim>\<open>Object.values\<close> enumerates them.\<close>

record ScanUpdateSummary =
  update_id :: string
  record_time :: string
  migration_id :: int
  synchronizer_id :: string
  root_event_ids :: "string list"
  events_by_id :: "(string \<times> ScanEvent) list option"



text \<open>\<^verbatim>\<open>s.split(c)\<close> for a one-character separator, and \<^verbatim>\<open>pop()\<close>, which gives the
  last element (the result of \<^verbatim>\<open>split\<close> is never empty).\<close>

fun split :: "char \<Rightarrow> string \<Rightarrow> string list" where
  "split c [] = [[]]"
| "split c (x # xs) =
     (if x = c then [] # split c xs
      else (case split c xs of
              [] \<Rightarrow> [[x]]
            | y # ys \<Rightarrow> (x # y) # ys))"










subsection \<open>fetchExplorerData\<close>

datatype 'a settled = Fulfilled 'a | Rejected thrown

fun getVal :: "'a settled \<Rightarrow> 'a \<Rightarrow> 'a" where
  "getVal (Fulfilled v) defaultVal = v"
| "getVal (Rejected r) defaultVal = defaultVal"


record ScanEndpoint =
  publicUrl :: string
  svName :: string

record ScanDomainEntry =
  domainId :: string
  sde_scans :: "ScanEndpoint list"






text \<open>The state of the component that \<^verbatim>\<open>fetchExplorerData\<close> sets.\<close>

record ExplorerState =
  scans :: "ScanDomainEntry list"
  updates :: "ScanUpdateSummary list"
  stats :: json
  price :: json
  cantonScanUpdates :: json
  activityHistory :: "json list"
  priceHistory :: "json list"
  validators :: "json list"
  ex_isLoading :: bool
  ex_error :: "string option"






section \<open>Concrete inputs\<close>

text \<open>Parsers and inputs for the examples below. Each parser agrees with
  \<^verbatim>\<open>JSON.parse\<close> on the texts it knows (\<^verbatim>\<open>null\<close>, \<^verbatim>\<open>{}\<close>, \<^verbatim>\<open>[]\<close> and \<^verbatim>\<open>7\<close>); no
  example gives it another text.\<close>

definition demoErrorFields :: errorFields where
  "demoErrorFields b = None"


text \<open>The same texts at a declared type, with the object \<^verbatim>\<open>{}\<close> given.\<close>

definition demoParsed :: "'o \<Rightarrow> ('o, 'e) parsed codec" where
  "demoParsed emptyObj =
     \<lparr> parse = (\<lambda>b. if b = ''null'' then Some PNull
                     else if b = ''{}'' then Some (PObject emptyObj)
                     else if b = ''[]'' then Some (PArray [])
                     else if b = ''7'' then Some PScalar
                     else None),
       syntaxError = ''Unexpected token'' \<rparr>"



definition response500 :: Response where
  "response500 = \<lparr> status = 500, statusText = ''Internal Server Error'', body = [] \<rparr>"

definition response200 :: Response where
  "response200 = \<lparr> status = 200, statusText = ''OK'', body = ''{}'' \<rparr>"

text \<open>Successful responses whose body is the JSON \<^verbatim>\<open>null\<close>, and whose body is empty.\<close>

definition responseNull :: Response where
  "responseNull = \<lparr> status = 200, statusText = ''OK'', body = ''null'' \<rparr>"


text \<open>The initial state of the store: \<^verbatim>\<open>initialConnectionState\<close>, \<^verbatim>\<open>initialPartyState\<close>,
  \<^verbatim>\<open>initialDataState\<close>, \<^verbatim>\<open>initialUIState\<close> and \<^verbatim>\<open>initialScanState\<close>.\<close>

definition initialStore :: StoreState where
  "initialStore =
     \<lparr> config = None,
       conn_status = \<lparr> connected = False, st_endpoint = [], ledgerEnd = None,
                       participantId = None, st_error = None \<rparr>,
       client = None,
       activeParty = None,
       availableParties = [],
       viewAsObserver = False,
       contracts = Map.empty,
       transactions = [],
       templates = Map.empty,
       lastOffset = 0,
       isLoading = False,
       error = None,
       currentPage = Dashboard,
       contractFilters = \<lparr> cq_templateId = None, cq_partyId = None, cq_status = None,
                           fromOffset = None, toOffset = None, searchText = None,
                           cq_limit = None \<rparr>,
       savedFilters = [],
       searchQuery = [],
       sidebarOpen = True,
       darkMode = False,
       scanConfig = \<lparr> url = ''https://scan.sv-1.global.canton.network.sync.global/api/scan'',
                      memberId = [] \<rparr>,
       scanClient = None,
       trafficStatus = None,
       miningRounds = None,
       isScanLoading = False,
       scanError = None \<rparr>"

definition demoEnv :: env where
  "demoEnv =
     \<lparr> ledgerEndCodec = demoParsed \<lparr> le_offset = None \<rparr>,
       partiesCodec = demoParsed \<lparr> partyDetails = None \<rparr>,
       acsCodec = demoParsed (),
       txCodec = demoParsed (),
       errFields = demoErrorFields,
       nowISO = ''2024-01-01T00:00:00.000Z'' \<rparr>"

definition alice :: Party where
  "alice = \<lparr> partyId = ''Alice::1'', displayName = Some ''Alice'', isLocal = True,
             identityProviderId = None \<rparr>"

definition oldConfig :: ConnectionConfig where
  "oldConfig = \<lparr> cfg_endpoint = ''http://old:7575/'', authToken = None \<rparr>"

definition newConfig :: ConnectionConfig where
  "newConfig = \<lparr> cfg_endpoint = ''http://new:7575'', authToken = None \<rparr>"

definition aliceContract :: Contract where
  "aliceContract =
     \<lparr> contractId = ''c1'', templateId = ''pkg:Mod:T'', payload = JObj [],
       stakeholders = [''Alice::1''], observers = [], signatories = [''Alice::1''],
       createdAt = ''2024-01-01T00:00:00.000Z'', offset = 7, contractKey = None,
       createdEventBlob = None \<rparr>"

text \<open>A store after an earlier successful connection and load.\<close>

definition loadedStore :: StoreState where
  "loadedStore =
     initialStore\<lparr> config := Some oldConfig,
                   client := Some (createCantonClient oldConfig),
                   conn_status := \<lparr> connected = True, st_endpoint = ''http://old:7575'',
                                    ledgerEnd = Some 7, participantId = None, st_error = None \<rparr>,
                   activeParty := Some alice,
                   availableParties := [alice],
                   contracts := [''c1'' \<mapsto> aliceContract],
                   lastOffset := 7 \<rparr>"










definition bob :: Party where
  "bob = \<lparr> partyId = ''Bob::2'', displayName = Some ''Bob'', isLocal = True,
           identityProviderId = None \<rparr>"

definition createdFor :: "string \<Rightarrow> PartyId \<Rightarrow> CreatedEvent" where
  "createdFor cid' pid =
     \<lparr> eventId = ''e-'' @ cid', ev_contractId = cid', ev_templateId = ''pkg:Mod:T'',
       ev_offset = 7, nodeId = 0, createArguments = JObj [], ev_contractKey = None,
       ev_signatories = [pid], ev_observers = [], ev_createdEventBlob = None \<rparr>"

definition txFor :: "string \<Rightarrow> LedgerOffset \<Rightarrow> Transaction" where
  "txFor uid off =
     \<lparr> updateId = uid, tx_offset = off, effectiveAt = ''2024-01-01T00:00:00.000Z'',
       commandId = None, workflowId = None, events = [] \<rparr>"

text \<open>A ledger on which Alice sees the contract \<open>c1\<close> and Bob the contract \<open>c2\<close>: the
  body of a response names the party it was computed for.\<close>

definition raceEnv :: env where
  "raceEnv =
     \<lparr> ledgerEndCodec = demoParsed \<lparr> le_offset = None \<rparr>,
       partiesCodec = demoParsed \<lparr> partyDetails = None \<rparr>,
       acsCodec =
         \<lparr> parse = (\<lambda>b. if b = ''for Alice''
                         then Some (PArray [\<lparr> item_offset = 7, item_workflowId = None,
                                      contractEntry = Some \<lparr> createdEvent =
                                        Some (createdFor ''c1'' ''Alice::1'') \<rparr> \<rparr>])
                         else if b = ''for Bob''
                         then Some (PArray [\<lparr> item_offset = 8, item_workflowId = None,
                                      contractEntry = Some \<lparr> createdEvent =
                                        Some (createdFor ''c2'' ''Bob::2'') \<rparr> \<rparr>])
                         else None),
           syntaxError = ''Unexpected token'' \<rparr>,
       txCodec =
         \<lparr> parse = (\<lambda>b. if b = ''for Alice''
                         then Some (PArray [\<lparr> transaction = Some (txFor ''tx-alice'' 7),
                                      transactionTree = None \<rparr>])
                         else if b = ''for Bob''
                         then Some (PArray [\<lparr> transaction = Some (txFor ''tx-bob'' 8),
                                      transactionTree = None \<rparr>])
                         else None),
           syntaxError = ''Unexpected token'' \<rparr>,
       errFields = demoErrorFields,
       nowISO = ''2024-01-01T00:00:00.000Z'' \<rparr>"

definition responseFor :: "string \<Rightarrow> outcome" where
  "responseFor b = Inr \<lparr> status = 200, statusText = ''OK'', body = b \<rparr>"

text \<open>A connected store without a party, and nothing in flight.\<close>

definition connectedSys :: sys where
  "connectedSys =
     \<lparr> store = initialStore\<lparr> config := Some oldConfig,
                              client := Some (createCantonClient oldConfig),
                              availableParties := [alice, bob] \<rparr>,
       inflight = [],
       nextId = 0 \<rparr>"

text \<open>The party is switched from Alice to Bob while her two requests (0 and 1) are in
  flight; his (2 and 3) are answered first, hers afterwards.\<close>

definition staleTrace :: "event list" where
  "staleTrace =
     [SetActiveParty alice, SetActiveParty bob,
      Settle 2 (responseFor ''for Bob''), Settle 3 (responseFor ''for Bob''),
      Settle 0 (responseFor ''for Alice''), Settle 1 (responseFor ''for Alice'')]"

text \<open>The same requests answered in the order in which they were made.\<close>

definition orderedTrace :: "event list" where
  "orderedTrace =
     [SetActiveParty alice, SetActiveParty bob,
      Settle 0 (responseFor ''for Alice''), Settle 1 (responseFor ''for Alice''),
      Settle 2 (responseFor ''for Bob''), Settle 3 (responseFor ''for Bob'')]"

section \<open>Properties of the ledger client\<close>

subsection \<open>Stakeholders\<close>

text \<open>C1, as the code has it: \<^verbatim>\<open>eventToContract\<close> sets \<^verbatim>\<open>stakeholders\<close> to the signatories
  followed by the observers. Every party of either list appears in it and no other party
  does, so as a set it is the union of the two; it is free of duplicates exactly when both
  lists are and no party is in both.\<close>

theorem eventToContract_stakeholders:
  "stakeholders (eventToContract event off now) = ev_signatories event @ ev_observers event
   \<and> set (stakeholders (eventToContract event off now))
       = set (signatories (eventToContract event off now))
         \<union> set (observers (eventToContract event off now))
   \<and> (distinct (stakeholders (eventToContract event off now))
        = (distinct (ev_signatories event) \<and> distinct (ev_observers event)
           \<and> set (ev_signatories event) \<inter> set (ev_observers event) = {}))"
  by (simp add: eventToContract_def)

text \<open>C1 as stated fails: a party that is both signatory and observer appears twice.\<close>

theorem eventToContract_duplicate_counterexample:
  "\<not> distinct (stakeholders (eventToContract
        \<lparr> eventId = ''e1'', ev_contractId = ''c1'', ev_templateId = ''pkg:Mod:T'', ev_offset = 7,
          nodeId = 0, createArguments = JObj [], ev_contractKey = None,
          ev_signatories = [''Alice''], ev_observers = [''Alice''],
          ev_createdEventBlob = None \<rparr> 7 ''2024-01-01T00:00:00.000Z''))"
  by (simp add: eventToContract_def)

subsection \<open>Requests\<close>







subsection \<open>Point lookups\<close>


















subsection \<open>Filters\<close>

text \<open>C4: without template ids (an absent or an empty list) the filter has an empty
  \<^verbatim>\<open>filtersByParty\<close> and a \<^verbatim>\<open>filtersForAnyParty\<close> whose only cumulative clause is a
  wildcard filter asking for created-event blobs. With a non-empty list,
  \<^verbatim>\<open>filtersByParty\<close> has the requesting party as its only key, the cumulative list of
  that party has one template filter for each template id, in order, and there is no
  \<^verbatim>\<open>filtersForAnyParty\<close>.\<close>

theorem buildTransactionFilter_shape:
  "(templateIds = None \<or> templateIds = Some [] \<longrightarrow>
      filtersByParty (buildTransactionFilter pid templateIds) = Map.empty
      \<and> filtersForAnyParty (buildTransactionFilter pid templateIds)
          = Some \<lparr> cumulative = [WildcardFilter (Some True)] \<rparr>)
   \<and> (templateIds = Some ts \<and> ts \<noteq> [] \<longrightarrow>
      dom (filtersByParty (buildTransactionFilter pid templateIds)) = {pid}
      \<and> filtersByParty (buildTransactionFilter pid templateIds) pid
          = Some \<lparr> pf_cumulative = Some (map (\<lambda>t. TemplateFilter t (Some True)) ts) \<rparr>
      \<and> filtersForAnyParty (buildTransactionFilter pid templateIds) = None)"
  by (auto simp: buildTransactionFilter_def)

theorem buildTransactionFilter_shape_witness:
  "filtersByParty (buildTransactionFilter ''Alice::1'' (Some [])) = Map.empty
   \<and> filtersForAnyParty (buildTransactionFilter ''Alice::1'' (Some []))
       = Some \<lparr> cumulative = [WildcardFilter (Some True)] \<rparr>
   \<and> dom (filtersByParty (buildTransactionFilter ''Alice::1'' (Some [''T1'']))) = {''Alice::1''}
   \<and> filtersByParty (buildTransactionFilter ''Alice::1'' (Some [''T1''])) ''Alice::1''
       = Some \<lparr> pf_cumulative = Some [TemplateFilter ''T1'' (Some True)] \<rparr>
   \<and> filtersForAnyParty (buildTransactionFilter ''Alice::1'' (Some [''T1''])) = None"
  using buildTransactionFilter_shape
          [where templateIds = "Some []" and pid = "''Alice::1''"]
        buildTransactionFilter_shape
          [where templateIds = "Some [''T1'']" and ts = "[''T1'']" and pid = "''Alice::1''"]
  by simp

subsection \<open>Connection status\<close>

text \<open>C6, as the code has it: \<^verbatim>\<open>getConnectionStatus\<close> returns a status whatever the
  request behind \<^verbatim>\<open>ping\<close> does, always with the endpoint of the client. When \<^verbatim>\<open>ping\<close>
  resolves with a value other than \<^verbatim>\<open>null\<close> the status is connected, with the offset
  read from that value and no error. When \<^verbatim>\<open>ping\<close> throws anything, or resolves with
  \<^verbatim>\<open>null\<close> (on which the read of the offset throws), the status is not connected and
  carries an error message.\<close>

theorem getConnectionStatus_never_throws:
  "\<exists>st. getConnectionStatus cd ef c out = Inr st
        \<and> st_endpoint st = endpoint c
        \<and> (case ping cd ef out of
              Inr v \<Rightarrow>
                (case v of
                   PNull \<Rightarrow> \<not> connected st \<and> ledgerEnd st = None
                              \<and> st_error st = Some (err_message (nullRead ''offset''))
                 | PObject le \<Rightarrow> connected st \<and> ledgerEnd st = le_offset le \<and> st_error st = None
                 | PArray xs \<Rightarrow> connected st \<and> ledgerEnd st = None \<and> st_error st = None
                 | PString str \<Rightarrow> connected st \<and> ledgerEnd st = None \<and> st_error st = None
                 | PScalar \<Rightarrow> connected st \<and> ledgerEnd st = None \<and> st_error st = None)
            | Inl e \<Rightarrow> \<not> connected st \<and> ledgerEnd st = None
                        \<and> st_error st = Some (if instanceof_Error e then err_message e
                                               else ''Unknown error''))"
proof (cases "ping cd ef out")
  case (Inl e)
  then show ?thesis by (simp add: getConnectionStatus_def try_catch_def)
next
  case (Inr v)
  then show ?thesis
    by (cases v) (simp_all add: getConnectionStatus_def try_catch_def nullRead_def)
qed

theorem getConnectionStatus_never_throws_witness:
  "getConnectionStatus (demoParsed \<lparr> le_offset = None \<rparr>) demoErrorFields
     (createCantonClient newConfig) (Inr response500)
   = Inr \<lparr> connected = False, st_endpoint = ''http://new:7575'', ledgerEnd = None,
           participantId = None,
           st_error = Some ''Canton API Error (500): Internal Server Error [/v2/state/ledger-end]'' \<rparr>
   \<and> connected (projr (getConnectionStatus (demoParsed \<lparr> le_offset = None \<rparr>) demoErrorFields
                          (createCantonClient newConfig) (Inr response200)))"
  using getConnectionStatus_never_throws
          [of "demoParsed \<lparr> le_offset = None \<rparr>" demoErrorFields "createCantonClient newConfig"
              "Inr response500"]
        getConnectionStatus_never_throws
          [of "demoParsed \<lparr> le_offset = None \<rparr>" demoErrorFields "createCantonClient newConfig"
              "Inr response200"]
  by (simp add: getConnectionStatus_def try_catch_def ping_def get_def request_def ok_def
        response500_def response200_def demoParsed_def demoErrorFields_def
        createCantonClient_def newConfig_def show_nat.simps)

text \<open>C6 as stated fails in its second half: \<^verbatim>\<open>ping\<close> succeeds with \<^verbatim>\<open>null\<close> on a
  response 200 with the body \<^verbatim>\<open>null\<close>, and the status returned is not connected.\<close>

theorem getConnectionStatus_null_counterexample:
  "ping (demoParsed \<lparr> le_offset = None \<rparr>) demoErrorFields (Inr responseNull) = Inr PNull
   \<and> getConnectionStatus (demoParsed \<lparr> le_offset = None \<rparr>) demoErrorFields
       (createCantonClient newConfig) (Inr responseNull)
     = Inr \<lparr> connected = False, st_endpoint = ''http://new:7575'', ledgerEnd = None,
             participantId = None, st_error = Some (err_message (nullRead ''offset'')) \<rparr>"
  by (simp add: getConnectionStatus_def try_catch_def ping_def get_def request_def ok_def
        responseNull_def demoParsed_def createCantonClient_def newConfig_def nullRead_def)

section \<open>Properties of the store\<close>

subsection \<open>Loads outside the connected state\<close>

text \<open>C10: when the store holds no client or no active party, \<^verbatim>\<open>loadContracts\<close> and
  \<^verbatim>\<open>loadTransactions\<close> return at their guard: no request is made and the store is
  exactly as before (no loading flag, no error, no data field changes).\<close>

theorem loads_noop_without_client_or_party:
  "client s = None \<or> activeParty s = None \<Longrightarrow>
     loadContracts E s query out = s
     \<and> loadTransactions E s limit out' = s
     \<and> loadContracts_begin s query = None
     \<and> loadTransactions_begin s = None"
  by (auto simp: loadContracts_def loadTransactions_def loadContracts_begin_def
        loadTransactions_begin_def split: option.splits)

theorem loads_noop_without_client_or_party_witness:
  "loadContracts demoEnv initialStore None (Inr response200) = initialStore
   \<and> loadTransactions demoEnv initialStore None (Inr response200) = initialStore
   \<and> loadContracts_begin initialStore None = None
   \<and> loadTransactions_begin initialStore = None"
  using loads_noop_without_client_or_party [of initialStore demoEnv None "Inr response200" None "Inr response200"]
  by (simp add: initialStore_def)

subsection \<open>Failed loads\<close>









subsection \<open>Failed connects\<close>

lemma getConnectionStatus_Inr:
  "\<exists>st. getConnectionStatus cd ef c out = Inr st"
  by (simp add: getConnectionStatus_def try_catch_def split: sum.splits)

lemma connect_catch_frame:
  "client (fst (connect_catch s cfg e)) = client s
   \<and> config (fst (connect_catch s cfg e)) = config s
   \<and> error (fst (connect_catch s cfg e)) \<noteq> None
   \<and> \<not> connected (conn_status (fst (connect_catch s cfg e)))
   \<and> \<not> isLoading (fst (connect_catch s cfg e))"
  by (simp add: connect_catch_def Let_def)

text \<open>C8, as the code has it: when \<^verbatim>\<open>connect\<close> fails (it returns \<^verbatim>\<open>false\<close>), the store
  records an error, its status is not connected, the loading flag is cleared, and the
  fields \<^verbatim>\<open>client\<close> and \<^verbatim>\<open>config\<close> are as they were before the call: the client
  created for the failed attempt is never stored, and a client held from an earlier
  connection stays.\<close>

theorem connect_failure_keeps_client:
  assumes "\<not> snd (connect E s cfg pingOut partiesOut)"
  shows "error (fst (connect E s cfg pingOut partiesOut)) \<noteq> None
     \<and> \<not> connected (conn_status (fst (connect E s cfg pingOut partiesOut)))
     \<and> \<not> isLoading (fst (connect E s cfg pingOut partiesOut))
     \<and> client (fst (connect E s cfg pingOut partiesOut)) = client s
     \<and> config (fst (connect E s cfg pingOut partiesOut)) = config s"
proof -
  obtain st where st: "getConnectionStatus (ledgerEndCodec E) (errFields E)
                         (createCantonClient cfg) pingOut = Inr st"
    using getConnectionStatus_Inr by blast
  show ?thesis
  proof (cases "connected st")
    case False
    with st show ?thesis by (simp add: connect_def Let_def)
  next
    case True
    show ?thesis
    proof (cases "getParties (partiesCodec E) (errFields E) partiesOut")
      case (Inl e)
      with st True connect_catch_frame [of "s\<lparr>isLoading := True, error := None\<rparr>" cfg e]
      show ?thesis by (simp add: connect_def Let_def)
    next
      case (Inr ps)
      with st True assms show ?thesis by (simp add: connect_def Let_def)
    qed
  qed
qed

theorem connect_failure_keeps_client_witness:
  "\<not> snd (connect demoEnv initialStore newConfig (Inl (NetworkError ''Failed to fetch''))
             (Inl (NetworkError ''Failed to fetch'')))
   \<and> error (fst (connect demoEnv initialStore newConfig (Inl (NetworkError ''Failed to fetch''))
                   (Inl (NetworkError ''Failed to fetch'')))) \<noteq> None
   \<and> client (fst (connect demoEnv initialStore newConfig (Inl (NetworkError ''Failed to fetch''))
                    (Inl (NetworkError ''Failed to fetch'')))) = None"
proof -
  have f: "\<not> snd (connect demoEnv initialStore newConfig (Inl (NetworkError ''Failed to fetch''))
             (Inl (NetworkError ''Failed to fetch'')))"
    by (simp add: connect_def Let_def getConnectionStatus_def ping_def get_def request_def
          try_catch_def)
  show ?thesis
    using f connect_failure_keeps_client [OF f]
    by (simp add: initialStore_def)
qed

text \<open>C8 as stated fails: after a successful connection to one endpoint, a failed
  \<^verbatim>\<open>connect\<close> to another leaves the client of the first in the store.\<close>

theorem connect_stale_client_counterexample:
  "\<not> snd (connect demoEnv loadedStore newConfig (Inl (NetworkError ''Failed to fetch''))
             (Inl (NetworkError ''Failed to fetch'')))
   \<and> client (fst (connect demoEnv loadedStore newConfig (Inl (NetworkError ''Failed to fetch''))
                    (Inl (NetworkError ''Failed to fetch''))))
       = Some \<lparr> endpoint = ''http://old:7575'',
                headers = [(''Content-Type'', ''application/json'')] \<rparr>"
  by (simp add: connect_def Let_def getConnectionStatus_def ping_def get_def request_def
        try_catch_def loadedStore_def createCantonClient_def oldConfig_def)

section \<open>Properties of the network explorer\<close>

subsection \<open>Aggregation\<close>

lemma readField_getVal_null:
  "readField name sel (getVal (Fulfilled PNull) d) = Inl (nullRead name)"
  by simp











subsection \<open>Transfer extraction\<close>









section \<open>Party switches with requests in flight\<close>

lemma issue_contracts_frame:
  "contracts (store (issueContracts S q)) = contracts (store S)
   \<and> transactions (store (issueContracts S q)) = transactions (store S)"
  by (simp add: issueContracts_def loadContracts_begin_def split: option.splits)

lemma issue_transactions_frame:
  "contracts (store (issueTransactions S l)) = contracts (store S)
   \<and> transactions (store (issueTransactions S l)) = transactions (store S)"
  by (simp add: issueTransactions_def loadTransactions_begin_def split: option.splits)

lemma setActiveParty_frame:
  "contracts (store (setActiveParty S party)) = contracts (store S)
   \<and> transactions (store (setActiveParty S party)) = transactions (store S)"
  by (simp add: setActiveParty_def refreshData_begin_def issue_contracts_frame
        issue_transactions_frame)

lemma step_contracts:
  "contracts (store (step E S e)) =
     (case contractsOf E S e of None \<Rightarrow> contracts (store S) | Some cs \<Rightarrow> setAll cs Map.empty)"
proof (cases e)
  case (SetActiveParty party)
  then show ?thesis by (simp add: contractsOf_def setActiveParty_frame)
next
  case (Settle i out)
  then show ?thesis
    by (simp add: contractsOf_def settle_def loadContracts_resume_def
          loadTransactions_resume_def Let_def
          split: option.splits pending.splits sum.splits)
qed

lemma step_transactions:
  "transactions (store (step E S e)) =
     (case transactionsOf E S e of None \<Rightarrow> transactions (store S) | Some ts \<Rightarrow> ts)"
proof (cases e)
  case (SetActiveParty party)
  then show ?thesis by (simp add: transactionsOf_def setActiveParty_frame)
next
  case (Settle i out)
  then show ?thesis
    by (simp add: transactionsOf_def settle_def loadContracts_resume_def
          loadTransactions_resume_def Let_def
          split: option.splits pending.splits sum.splits)
qed

lemma run_contracts:
  "contracts (store (run E S es)) =
     (case lastCompleted (contractsOf E) E S es of
        None \<Rightarrow> contracts (store S)
      | Some cs \<Rightarrow> setAll cs Map.empty)"
  by (induction es arbitrary: S) (simp_all add: step_contracts split: option.splits)

lemma run_transactions:
  "transactions (store (run E S es)) =
     (case lastCompleted (transactionsOf E) E S es of
        None \<Rightarrow> transactions (store S)
      | Some ts \<Rightarrow> ts)"
  by (induction es arbitrary: S) (simp_all add: step_transactions split: option.splits)

text \<open>C2, as the code has it: after any sequence of party switches and settled requests,
  the contracts map of the store is the one built from the most recently completed
  successful contracts load, and the transaction list is that of the most recently
  completed successful transactions load, whichever party those loads were made for (and
  the data of the starting store if no load has completed successfully).\<close>

theorem snapshot_is_last_completed_load:
  "contracts (store (run E S es)) =
     (case lastCompleted (contractsOf E) E S es of
        None \<Rightarrow> contracts (store S)
      | Some cs \<Rightarrow> setAll cs Map.empty)
   \<and> transactions (store (run E S es)) =
     (case lastCompleted (transactionsOf E) E S es of
        None \<Rightarrow> transactions (store S)
      | Some ts \<Rightarrow> ts)"
  by (simp add: run_contracts run_transactions)

lemmas race_defs =
  setActiveParty_def refreshData_begin_def issueContracts_def issueTransactions_def
  loadContracts_begin_def contractsOptions_def loadTransactions_begin_def settle_def
  loadContracts_resume_def
  loadTransactions_resume_def getActiveContracts_def getTransactions_def post_def
  request_def ok_def raceEnv_def responseFor_def connectedSys_def initialStore_def
  alice_def bob_def Let_def slice0_def maxOffset_def createdFor_def txFor_def
  eventToContract_def

text \<open>C2 as stated fails: the party is switched from Alice to Bob while Alice's requests
  are in flight, Bob's requests are answered first and Alice's afterwards. When nothing
  is in flight any more the active party is Bob, and the store holds Alice's contract and
  transaction and none of Bob's.\<close>

theorem stale_response_counterexample:
  "inflight (run raceEnv connectedSys (take 2 staleTrace)) =
     [(0, PendingContracts ''Alice::1''
            \<lparr> opt_templateIds = None, opt_offset = None, opt_verbose = Some True \<rparr>),
      (1, PendingTransactions ''Alice::1'' 0 100),
      (2, PendingContracts ''Bob::2''
            \<lparr> opt_templateIds = None, opt_offset = None, opt_verbose = Some True \<rparr>),
      (3, PendingTransactions ''Bob::2'' 0 100)]
   \<and> inflight (run raceEnv connectedSys staleTrace) = []
   \<and> map_option partyId (activeParty (store (run raceEnv connectedSys staleTrace))) = Some ''Bob::2''
   \<and> map_option signatories (contracts (store (run raceEnv connectedSys staleTrace)) ''c1'')
       = Some [''Alice::1'']
   \<and> contracts (store (run raceEnv connectedSys staleTrace)) ''c2'' = None
   \<and> map updateId (transactions (store (run raceEnv connectedSys staleTrace))) = [''tx-alice'']"
  by (simp add: staleTrace_def race_defs)

text \<open>When the same requests are answered in the order in which they were made, the
  store ends with Bob's data only.\<close>

theorem snapshot_is_last_completed_load_witness:
  "inflight (run raceEnv connectedSys orderedTrace) = []
   \<and> map_option partyId (activeParty (store (run raceEnv connectedSys orderedTrace))) = Some ''Bob::2''
   \<and> contracts (store (run raceEnv connectedSys orderedTrace)) ''c1'' = None
   \<and> map_option signatories (contracts (store (run raceEnv connectedSys orderedTrace)) ''c2'')
       = Some [''Bob::2'']
   \<and> map updateId (transactions (store (run raceEnv connectedSys orderedTrace))) = [''tx-bob'']"
  using snapshot_is_last_completed_load [of raceEnv connectedSys orderedTrace]
  by (simp add: orderedTrace_def race_defs contractsOf_def transactionsOf_def)

end
